theory Spec2Isabelle
  imports Complex_Main "HOL-Library.Char_ord" "HOL-Library.List_Lexorder"
    "HOL-Library.Product_Lexorder"
begin

section \<open>The salary dashboard (app.py): data model\<close>

text \<open>
  The script keeps its data in one pandas DataFrame. A cell read from the CSV is a number
  or a string; numbers are modelled as rationals, so that an integer year and a decimal
  salary are compared by value, as Python compares them, and a mean is exact. Missing
  values (NaN) and the rounding of binary floating point are outside this model.

  A table is the list of its column labels and the list of its rows, every row holding
  one cell per column, in column order.
\<close>

datatype cell = is_Num: Num (num_of: rat) | is_Str: Str (str_of: string)

datatype py_error =
    KeyError string
  | TypeError
  | AmbiguousColumn string

record dataframe =
  columns :: "string list"
  rows :: "cell list list"

text \<open>Sequencing of two steps of the script: the first exception raised ends it.\<close>

definition pbind :: "py_error + 'a \<Rightarrow> ('a \<Rightarrow> py_error + 'b) \<Rightarrow> py_error + 'b" where
  "pbind m f = (case m of Inl e \<Rightarrow> Inl e | Inr x \<Rightarrow> f x)"

section \<open>Schema normalizer (lines 15 to 47)\<close>

definition COL_MAP :: "(string \<times> string) list" where
  "COL_MAP =
    [(''ano'', ''year''),
     (''senioridade'', ''seniority''),
     (''contrato'', ''contract_type''),
     (''cargo'', ''role''),
     (''salario'', ''salary''),
     (''moeda'', ''currency''),
     (''usd'', ''usd''),
     (''residencia'', ''country''),
     (''residencia_iso3'', ''country_iso3''),
     (''experiencia'', ''experience''),
     (''tamanho_empresa'', ''company_size''),
     (''remoto'', ''work_model'')]"

definition VALUE_MAP :: "(string \<times> string) list" where
  "VALUE_MAP =
    [(''executivo'', ''executive''),
     (''junior'', ''entry level''),
     (''pleno'', ''mid-level''),
     (''senior'', ''senior''),
     (''integral'', ''full time''),
     (''parcial'', ''part time''),
     (''contrato'', ''contract''),
     (''remoto'', ''remote''),
     (''hibrido'', ''hybrid''),
     (''presencial'', ''onsite''),
     (''media'', ''medium''),
     (''grande'', ''large''),
     (''pequena'', ''small'')]"

text \<open>
  \<open>df.rename(columns=m)\<close>: a label that is a key of \<open>m\<close> becomes its target, any other
  label stays, and a key that labels no column is ignored.
\<close>

definition rename_label :: "(string \<times> string) list \<Rightarrow> string \<Rightarrow> string" where
  "rename_label m c = (case map_of m c of None \<Rightarrow> c | Some c' \<Rightarrow> c')"

definition rename :: "(string \<times> string) list \<Rightarrow> dataframe \<Rightarrow> dataframe" where
  "rename m df = df\<lparr>columns := map (rename_label m) (columns df)\<rparr>"

text \<open>
  \<open>df.replace(m)\<close> with a dictionary of strings: every cell of every column that equals a
  key becomes that key's target. A number equals no string key.
\<close>

fun replace_cell :: "(string \<times> string) list \<Rightarrow> cell \<Rightarrow> cell" where
  "replace_cell m (Num q) = Num q"
| "replace_cell m (Str s) = (case map_of m s of None \<Rightarrow> Str s | Some t \<Rightarrow> Str t)"

definition replace :: "(string \<times> string) list \<Rightarrow> dataframe \<Rightarrow> dataframe" where
  "replace m df = df\<lparr>rows := map (map (replace_cell m)) (rows df)\<rparr>"

definition normalizer :: "dataframe \<Rightarrow> dataframe" where
  "normalizer df = replace VALUE_MAP (rename COL_MAP df)"

section \<open>Column access\<close>

text \<open>
  \<open>df[c]\<close> raises \<open>KeyError\<close> when no column is labelled \<open>c\<close>. When several columns
  carry the label (possible only after a renaming that maps two labels to one), pandas
  hands back a table instead of a column, and what the script does next with it
  (\<open>unique\<close>, formatting a mean, \<open>mode()[0]\<close>, \<open>groupby\<close>) raises; the model reports
  that failure at the access itself.
\<close>

fun index_of :: "'a \<Rightarrow> 'a list \<Rightarrow> nat" where
  "index_of x [] = 0"
| "index_of x (y # ys) = (if x = y then 0 else Suc (index_of x ys))"

definition col_index :: "dataframe \<Rightarrow> string \<Rightarrow> py_error + nat" where
  "col_index df c =
     (if c \<notin> set (columns df) then Inl (KeyError c)
      else if 1 < count_list (columns df) c then Inl (AmbiguousColumn c)
      else Inr (index_of c (columns df)))"

definition getcol :: "dataframe \<Rightarrow> string \<Rightarrow> py_error + cell list" where
  "getcol df c = pbind (col_index df c) (\<lambda>i. Inr (map (\<lambda>r. r ! i) (rows df)))"

text \<open>\<open>df.empty\<close>: some axis has length zero.\<close>

definition df_empty :: "dataframe \<Rightarrow> bool" where
  "df_empty df = (rows df = [] \<or> columns df = [])"

text \<open>\<open>s.isin(vals)\<close>, \<open>a & b\<close> on two masks, and \<open>df[mask]\<close>.\<close>

definition isin :: "cell list \<Rightarrow> cell list \<Rightarrow> bool list" where
  "isin s vals = map (\<lambda>v. v \<in> set vals) s"

definition mask_and :: "bool list \<Rightarrow> bool list \<Rightarrow> bool list" where
  "mask_and a b = map2 (\<and>) a b"

definition select_rows :: "dataframe \<Rightarrow> bool list \<Rightarrow> dataframe" where
  "select_rows df keep = df\<lparr>rows := map fst (filter snd (zip (rows df) keep))\<rparr>"

text \<open>\<open>s.unique()\<close>: the distinct values, in order of first appearance.\<close>

fun unique_from :: "'a list \<Rightarrow> 'a list \<Rightarrow> 'a list" where
  "unique_from seen [] = []"
| "unique_from seen (x # xs) =
     (if x \<in> set seen then unique_from seen xs else x # unique_from (x # seen) xs)"

definition unique :: "'a list \<Rightarrow> 'a list" where
  "unique xs = unique_from [] xs"

text \<open>
  The order of cells: numbers by value and strings by code point (the bytes of UTF-8
  compare as the code points do). Python's \<open>sorted\<close> and numpy's \<open>sort\<close> raise
  \<open>TypeError\<close> on a list that mixes numbers and strings; pandas' own sort of group keys
  puts the numbers before the strings.
\<close>

definition cell_key :: "cell \<Rightarrow> nat \<times> rat \<times> string" where
  "cell_key c = (case c of Num q \<Rightarrow> (0, q, []) | Str s \<Rightarrow> (1, 0, s))"

definition safe_sort :: "cell list \<Rightarrow> cell list" where
  "safe_sort xs = sort_key cell_key xs"

definition sorted_py :: "cell list \<Rightarrow> py_error + cell list" where
  "sorted_py xs =
     (if list_all is_Num xs \<or> list_all is_Str xs then Inr (sort_key cell_key xs)
      else Inl TypeError)"

section \<open>Sidebar and filter engine (lines 52 to 70)\<close>

definition years_available :: "dataframe \<Rightarrow> py_error + cell list" where
  "years_available df = pbind (getcol df ''year'') (\<lambda>s. sorted_py (unique s))"

definition seniority_available :: "dataframe \<Rightarrow> py_error + cell list" where
  "seniority_available df = pbind (getcol df ''seniority'') (\<lambda>s. sorted_py (unique s))"

definition contracts_available :: "dataframe \<Rightarrow> py_error + cell list" where
  "contracts_available df = pbind (getcol df ''contract_type'') (\<lambda>s. sorted_py (unique s))"

definition sizes_available :: "dataframe \<Rightarrow> py_error + cell list" where
  "sizes_available df = pbind (getcol df ''company_size'') (\<lambda>s. sorted_py (unique s))"

record selection =
  years_selected :: "cell list"
  seniority_selected :: "cell list"
  contracts_selected :: "cell list"
  sizes_selected :: "cell list"

text \<open>Every multiselect widget starts with all of its options selected.\<close>

definition default_selection :: "dataframe \<Rightarrow> py_error + selection" where
  "default_selection df =
     pbind (years_available df) (\<lambda>y.
     pbind (seniority_available df) (\<lambda>s.
     pbind (contracts_available df) (\<lambda>c.
     pbind (sizes_available df) (\<lambda>z.
       Inr \<lparr>years_selected = y, seniority_selected = s,
            contracts_selected = c, sizes_selected = z\<rparr>))))"

definition df_filtered :: "dataframe \<Rightarrow> selection \<Rightarrow> py_error + dataframe" where
  "df_filtered df sel =
     pbind (getcol df ''year'') (\<lambda>y.
     pbind (getcol df ''seniority'') (\<lambda>s.
     pbind (getcol df ''contract_type'') (\<lambda>c.
     pbind (getcol df ''company_size'') (\<lambda>z.
       Inr (select_rows df
         (mask_and
           (mask_and
             (mask_and (isin y (years_selected sel)) (isin s (seniority_selected sel)))
             (isin c (contracts_selected sel)))
           (isin z (sizes_selected sel))))))))"

section \<open>Key metrics (lines 79 to 87)\<close>

text \<open>
  A mean or a maximum of no values is NaN in pandas, written \<open>None\<close> here. A mean over a
  column holding a string raises \<open>TypeError\<close>.
\<close>

definition nums :: "cell list \<Rightarrow> py_error + rat list" where
  "nums s = (if list_all is_Num s then Inr (map num_of s) else Inl TypeError)"

definition mean :: "rat list \<Rightarrow> rat" where
  "mean xs = sum_list xs / of_nat (length xs)"

definition series_mean :: "rat list \<Rightarrow> rat option" where
  "series_mean xs = (if xs = [] then None else Some (mean xs))"

fun series_max :: "rat list \<Rightarrow> rat option" where
  "series_max [] = None"
| "series_max (x # xs) = Some (fold max xs x)"

text \<open>
  \<open>s.mode()\<close>: the values are counted in order of first appearance, those with the highest
  count are kept, and the kept values are then sorted; when they cannot be compared the
  sort is skipped. \<open>s.mode()[0]\<close> is the first of them.
\<close>

definition value_count :: "cell list \<Rightarrow> (cell \<times> nat) list" where
  "value_count xs = map (\<lambda>v. (v, count_list xs v)) (unique xs)"

definition htable_mode :: "cell list \<Rightarrow> cell list" where
  "htable_mode xs =
     (let kc = value_count xs; m = fold max (map snd kc) 0
      in map fst (filter (\<lambda>p. snd p = m) kc))"

definition series_mode :: "cell list \<Rightarrow> cell list" where
  "series_mode xs =
     (let ms = htable_mode xs in case sorted_py ms of Inr s \<Rightarrow> s | Inl e \<Rightarrow> ms)"

definition first_item :: "cell list \<Rightarrow> py_error + cell" where
  "first_item s = (case s of [] \<Rightarrow> Inl (KeyError ''0'') | x # _ \<Rightarrow> Inr x)"

record kpis =
  avg_salary :: "rat option"
  max_salary :: "rat option"
  total_records :: nat
  most_common_role :: cell

definition compute_kpis :: "dataframe \<Rightarrow> py_error + kpis" where
  "compute_kpis df =
     (if \<not> df_empty df then
        pbind (getcol df ''usd'') (\<lambda>u.
        pbind (nums u) (\<lambda>us.
        pbind (getcol df ''role'') (\<lambda>r.
        pbind (first_item (series_mode r)) (\<lambda>m.
          Inr \<lparr>avg_salary = series_mean us, max_salary = series_max us,
               total_records = length (rows df), most_common_role = m\<rparr>))))
      else
        Inr \<lparr>avg_salary = Some 0, max_salary = Some 0,
             total_records = 0, most_common_role = Str []\<rparr>)"

text \<open>
  The spec's reading of the most common role, for comparison with the code: of the roles
  with the highest frequency, the one met first in the order of the records.
\<close>

definition spec_most_common_role :: "cell list \<Rightarrow> cell option" where
  "spec_most_common_role xs =
     find (\<lambda>v. list_all (\<lambda>w. count_list xs w \<le> count_list xs v) xs) xs"

section \<open>Charts (lines 102 to 173)\<close>

text \<open>
  What a chart region shows: a chart over derived data, a warning, or an informational
  message.
\<close>

datatype 'a region = Chart 'a | Warning string | Info string

text \<open>
  \<open>df.groupby(by)[val].mean().reset_index()\<close>: one row per distinct key, keys in sorted
  order, with the mean of \<open>val\<close> over the rows of that key.
\<close>

definition group_mean :: "cell list \<Rightarrow> rat list \<Rightarrow> cell \<Rightarrow> rat" where
  "group_mean ks ns k = mean (map snd (filter (\<lambda>p. fst p = k) (zip ks ns)))"

definition groupby_mean :: "dataframe \<Rightarrow> string \<Rightarrow> string \<Rightarrow> py_error + (cell \<times> rat) list" where
  "groupby_mean df by val =
     pbind (getcol df by) (\<lambda>ks.
     pbind (getcol df val) (\<lambda>vs.
     pbind (nums vs) (\<lambda>ns.
       Inr (map (\<lambda>k. (k, group_mean ks ns k)) (safe_sort (unique ks))))))"

text \<open>
  \<open>nlargest(n)\<close> keeps the \<open>n\<close> largest values in descending order, the earlier entry
  first among equal values; \<open>sort_values(ascending=True)\<close> sorts ascending. Both are
  modelled as stable sorts; pandas does not promise the order that \<open>sort_values\<close> gives
  to equal values, and no theorem below depends on it.
\<close>

definition nlargest :: "nat \<Rightarrow> (cell \<times> rat) list \<Rightarrow> (cell \<times> rat) list" where
  "nlargest n xs = take n (sort_key (\<lambda>p. - snd p) xs)"

definition sort_values :: "(cell \<times> rat) list \<Rightarrow> (cell \<times> rat) list" where
  "sort_values xs = sort_key snd xs"

definition top_roles :: "dataframe \<Rightarrow> py_error + (cell \<times> rat) list region" where
  "top_roles df =
     (if \<not> df_empty df then
        pbind (groupby_mean df ''role'' ''usd'') (\<lambda>g.
          Inr (Chart (sort_values (nlargest 10 g))))
      else Inr (Warning ''No data available for roles.''))"

text \<open>\<open>s.value_counts()\<close>: the count of every distinct value, the most frequent first.\<close>

definition value_counts :: "cell list \<Rightarrow> (cell \<times> nat) list" where
  "value_counts xs = sort_key (\<lambda>p. - int (snd p)) (value_count xs)"

definition wm_counts :: "dataframe \<Rightarrow> py_error + (cell \<times> nat) list region" where
  "wm_counts df =
     (if \<not> df_empty df then
        pbind (getcol df ''work_model'') (\<lambda>s. Inr (Chart (value_counts s)))
      else Inr (Warning ''No data available for work model.''))"

definition fig_map :: "dataframe \<Rightarrow> py_error + (cell \<times> rat) list region" where
  "fig_map df =
     (if \<not> df_empty df then
        pbind (getcol df ''role'') (\<lambda>r.
          let df_ds = select_rows df (map (\<lambda>v. v = Str ''Data Scientist'') r) in
          if \<not> df_empty df_ds then
            let iso_col = (if ''country_iso3'' \<in> set (columns df_ds)
                           then ''country_iso3'' else ''residencia_iso3'')
            in pbind (groupby_mean df_ds iso_col ''usd'') (\<lambda>g. Inr (Chart g))
          else Inr (Info ''No Data Scientist records in the current filter.''))
      else Inr (Warning ''No data available for countries.''))"

section \<open>The script as a whole\<close>

text \<open>
  One run of the script on the table read from the CSV. The user's choice in the four
  widgets is a function from the default selection to the selection made. The histogram
  is drawn by the plotting library from the \<open>usd\<close> column of the filtered table and has
  no derived table of its own.
\<close>

record page =
  metrics :: kpis
  roles_region :: "(cell \<times> rat) list region"
  work_model_region :: "(cell \<times> nat) list region"
  countries_region :: "(cell \<times> rat) list region"
  detail :: dataframe

definition app :: "dataframe \<Rightarrow> (selection \<Rightarrow> selection) \<Rightarrow> py_error + page" where
  "app raw pick =
     (let df = normalizer raw in
      pbind (default_selection df) (\<lambda>dflt.
      pbind (df_filtered df (pick dflt)) (\<lambda>fv.
      pbind (compute_kpis fv) (\<lambda>k.
      pbind (top_roles fv) (\<lambda>t.
      pbind (wm_counts fv) (\<lambda>w.
      pbind (fig_map fv) (\<lambda>g.
        Inr \<lparr>metrics = k, roles_region = t, work_model_region = w,
             countries_region = g, detail = fv\<rparr>)))))))"

section \<open>Canonical form, and the tables the examples run on\<close>

text \<open>
  A label or a string value is in canonical form when it is a target of the translation
  table, or is not one of its keys (an identifier, a job title or a country code passes
  through the normalizer as it is). A table is in canonical form when all of its labels
  and all of its cells are.
\<close>

definition canonical_label :: "string \<Rightarrow> bool" where
  "canonical_label c = (c \<in> set (map snd COL_MAP) \<or> c \<notin> set (map fst COL_MAP))"

definition canonical_cell :: "cell \<Rightarrow> bool" where
  "canonical_cell v = (case v of Num q \<Rightarrow> True
      | Str s \<Rightarrow> s \<in> set (map snd VALUE_MAP) \<or> s \<notin> set (map fst VALUE_MAP))"

definition canonical_form :: "dataframe \<Rightarrow> bool" where
  "canonical_form df =
     (list_all canonical_label (columns df) \<and> list_all (list_all canonical_cell) (rows df))"

text \<open>A raw table whose job title happens to be the source code of a contract type.\<close>

definition ex_c1 :: dataframe where
  "ex_c1 = \<lparr>columns = [''ano'', ''cargo''], rows = [[Num 2024, Str ''contrato'']]\<rparr>"

text \<open>A table already in canonical form, with one column the renaming does not know.\<close>

definition ex_c9 :: dataframe where
  "ex_c9 = \<lparr>columns = [''year'', ''seniority'', ''usd'', ''id''],
            rows = [[Num 2024, Str ''senior'', Num 100, Str ''x1'']]\<rparr>"

text \<open>
  A normalized table of three records, the same table with no record, a selection that
  keeps the first and the third record, and the default selection of the table.
\<close>

definition ex_table :: dataframe where
  "ex_table =
     \<lparr>columns = [''year'', ''seniority'', ''contract_type'', ''company_size'', ''role'', ''usd''],
      rows = [[Num 2024, Str ''senior'', Str ''full time'', Str ''medium'', Str ''A'', Num 100],
              [Num 2023, Str ''senior'', Str ''full time'', Str ''large'', Str ''A'', Num 200],
              [Num 2024, Str ''executive'', Str ''contract'', Str ''medium'', Str ''B'', Num 300]]\<rparr>"

definition ex_no_rows :: dataframe where
  "ex_no_rows = \<lparr>columns = [''year'', ''seniority'', ''contract_type'', ''company_size'', ''role'', ''usd''],
      rows = []\<rparr>"

definition sel_2024 :: selection where
  "sel_2024 = \<lparr>years_selected = [Num 2024], seniority_selected = [Str ''senior'', Str ''executive''],
     contracts_selected = [Str ''full time'', Str ''contract''], sizes_selected = [Str ''medium'']\<rparr>"

definition ex_table_default :: selection where
  "ex_table_default =
     \<lparr>years_selected = [Num 2023, Num 2024],
      seniority_selected = [Str ''executive'', Str ''senior''],
      contracts_selected = [Str ''contract'', Str ''full time''],
      sizes_selected = [Str ''large'', Str ''medium'']\<rparr>"

text \<open>
  A CSV as the script expects it, except that it has no \<open>residencia_iso3\<close> column.
\<close>

definition ex_raw_no_iso :: dataframe where
  "ex_raw_no_iso =
     \<lparr>columns = [''ano'', ''senioridade'', ''contrato'', ''tamanho_empresa'', ''cargo'',
                 ''usd'', ''remoto'', ''residencia''],
      rows = [[Num 2024, Str ''senior'', Str ''integral'', Str ''media'',
               Str ''Data Scientist'', Num 100, Str ''remoto'', Str ''BR'']]\<rparr>"

text \<open>Two roles that occur once each, the alphabetically later one first.\<close>

definition ex_tie :: dataframe where
  "ex_tie = \<lparr>columns = [''role'', ''usd''],
             rows = [[Str ''Engineer'', Num 100], [Str ''Analyst'', Num 200]]\<rparr>"

text \<open>Twelve roles with the mean salaries 1 to 12, one record each.\<close>

definition ex_twelve :: dataframe where
  "ex_twelve = \<lparr>columns = [''role'', ''usd''],
     rows = [[Str ''r01'', Num 1], [Str ''r02'', Num 2], [Str ''r03'', Num 3],
             [Str ''r04'', Num 4], [Str ''r05'', Num 5], [Str ''r06'', Num 6],
             [Str ''r07'', Num 7], [Str ''r08'', Num 8], [Str ''r09'', Num 9],
             [Str ''r10'', Num 10], [Str ''r11'', Num 11], [Str ''r12'', Num 12]]\<rparr>"

text \<open>
  A CSV without the \<open>cargo\<close> column; a CSV that has only the four filter columns; and a
  user who deselects every year.
\<close>

definition ex_raw_no_role :: dataframe where
  "ex_raw_no_role =
     \<lparr>columns = [''ano'', ''senioridade'', ''contrato'', ''tamanho_empresa'', ''usd'',
                 ''remoto'', ''residencia_iso3''],
      rows = [[Num 2024, Str ''senior'', Str ''integral'', Str ''media'', Num 100,
               Str ''remoto'', Str ''BRA'']]\<rparr>"

definition ex_raw_filters_only :: dataframe where
  "ex_raw_filters_only =
     \<lparr>columns = [''ano'', ''senioridade'', ''contrato'', ''tamanho_empresa''],
      rows = [[Num 2024, Str ''senior'', Str ''integral'', Str ''media'']]\<rparr>"

definition no_year :: "selection \<Rightarrow> selection" where
  "no_year sel = sel\<lparr>years_selected := []\<rparr>"

text \<open>
  A table that still carries the source label \<open>residencia_iso3\<close> and has no
  \<open>country_iso3\<close> column, with three records of Data Scientists.
\<close>

definition ex_fallback :: dataframe where
  "ex_fallback =
     \<lparr>columns = [''role'', ''usd'', ''residencia_iso3''],
      rows = [[Str ''Data Scientist'', Num 100, Str ''BRA''],
              [Str ''Data Scientist'', Num 300, Str ''BRA''],
              [Str ''Analyst'', Num 70, Str ''USA''],
              [Str ''Data Scientist'', Num 50, Str ''USA'']]\<rparr>"

text \<open>A CSV without the \<open>usd\<close> column, its one record an analyst.\<close>

definition ex_raw_no_usd :: dataframe where
  "ex_raw_no_usd =
     \<lparr>columns = [''ano'', ''senioridade'', ''contrato'', ''tamanho_empresa'', ''cargo'',
                 ''remoto'', ''residencia_iso3''],
      rows = [[Num 2024, Str ''senior'', Str ''integral'', Str ''media'', Str ''Analyst'',
               Str ''remoto'', Str ''BRA'']]\<rparr>"

section \<open>The normalizer\<close>

lemma distinct_VALUE_MAP: "distinct (map fst VALUE_MAP)"
  by (simp add: VALUE_MAP_def)

lemma col_targets_fixed: "list_all (\<lambda>c. rename_label COL_MAP c = c) (map snd COL_MAP)"
  by code_simp

lemma value_targets_fixed: "list_all (\<lambda>s. replace_cell VALUE_MAP (Str s) = Str s) (map snd VALUE_MAP)"
  by code_simp

lemma rows_normalizer: "rows (normalizer df) = map (map (replace_cell VALUE_MAP)) (rows df)"
  by (simp add: normalizer_def replace_def rename_def)

lemma columns_normalizer: "columns (normalizer df) = map (rename_label COL_MAP) (columns df)"
  by (simp add: normalizer_def replace_def rename_def)

lemma replace_cell_hit:
  assumes "(k, t) \<in> set VALUE_MAP"
  shows "replace_cell VALUE_MAP (Str k) = Str t"
proof -
  have "map_of VALUE_MAP k = Some t"
    using assms distinct_VALUE_MAP by (rule_tac map_of_is_SomeI) 
  then show ?thesis by simp
qed

lemma replace_cell_miss:
  assumes "\<forall>k t. (k, t) \<in> set VALUE_MAP \<longrightarrow> c \<noteq> Str k"
  shows "replace_cell VALUE_MAP c = c"
proof (cases c)
  case (Num q)
  then show ?thesis by simp
next
  case (Str s)
  have "map_of VALUE_MAP s = None"
  proof (cases "map_of VALUE_MAP s")
    case None
    then show ?thesis .
  next
    case (Some t)
    then have "(s, t) \<in> set VALUE_MAP" by (rule map_of_SomeD)
    with assms Str show ?thesis by blast
  qed
  with Str show ?thesis by simp
qed

text \<open>
  Claim C1. The value translation is applied to the whole table: whatever the column, a
  cell holding a key of \<open>VALUE_MAP\<close> holds that key's target after normalization, and
  a cell holding no key is unchanged. The shape of the table is kept.
\<close>

theorem replace_is_table_wide:
  assumes "i < length (rows df)" and "j < length (rows df ! i)"
  shows "length (rows (normalizer df)) = length (rows df)
       \<and> length (rows (normalizer df) ! i) = length (rows df ! i)
       \<and> (\<forall>k t. rows df ! i ! j = Str k \<and> (k, t) \<in> set VALUE_MAP
             \<longrightarrow> rows (normalizer df) ! i ! j = Str t)
       \<and> ((\<forall>k t. (k, t) \<in> set VALUE_MAP \<longrightarrow> rows df ! i ! j \<noteq> Str k)
             \<longrightarrow> rows (normalizer df) ! i ! j = rows df ! i ! j)"
proof -
  have cell: "rows (normalizer df) ! i ! j = replace_cell VALUE_MAP (rows df ! i ! j)"
    using assms by (simp add: rows_normalizer)
  have a: "length (rows (normalizer df)) = length (rows df)"
    by (simp add: rows_normalizer)
  have b: "length (rows (normalizer df) ! i) = length (rows df ! i)"
    using assms by (simp add: rows_normalizer)
  have c: "\<forall>k t. rows df ! i ! j = Str k \<and> (k, t) \<in> set VALUE_MAP
             \<longrightarrow> rows (normalizer df) ! i ! j = Str t"
    using cell replace_cell_hit by metis
  have d: "(\<forall>k t. (k, t) \<in> set VALUE_MAP \<longrightarrow> rows df ! i ! j \<noteq> Str k)
             \<longrightarrow> rows (normalizer df) ! i ! j = rows df ! i ! j"
    using cell replace_cell_miss by metis
  from a b c d show ?thesis by blast
qed

text \<open>
  In \<open>ex_c1\<close> the key \<open>contrato\<close> stands in the job title column and is translated all
  the same; the year beside it is kept.
\<close>

theorem replace_is_table_wide_witness:
  "rows (normalizer ex_c1) ! 0 ! 1 = Str ''contract''
   \<and> rows (normalizer ex_c1) ! 0 ! 0 = Num 2024"
proof -
  have r: "rows ex_c1 = [[Num 2024, Str ''contrato'']]"
    by (simp add: ex_c1_def)
  have h1: "0 < length (rows ex_c1)"
    by (simp add: r)
  have h2: "1 < length (rows ex_c1 ! 0)"
    by (simp add: r)
  have h3: "0 < length (rows ex_c1 ! 0)"
    by (simp add: r)
  have m: "(''contrato'', ''contract'') \<in> set VALUE_MAP"
    by (simp add: VALUE_MAP_def)
  have c1: "rows ex_c1 ! 0 ! 1 = Str ''contrato''"
    by (simp add: r)
  have c0: "rows ex_c1 ! 0 ! 0 = Num 2024"
    by (simp add: r)
  from replace_is_table_wide [OF h1 h2] c1 m
  have a: "rows (normalizer ex_c1) ! 0 ! 1 = Str ''contract''"
    by blast
  have n: "\<forall>k t. (k, t) \<in> set VALUE_MAP \<longrightarrow> rows ex_c1 ! 0 ! 0 \<noteq> Str k"
    by (simp add: c0)
  from replace_is_table_wide [OF h1 h3] n c0
  have b: "rows (normalizer ex_c1) ! 0 ! 0 = Num 2024"
    by metis
  from a b show ?thesis ..
qed

lemma map_of_not_key: "k \<notin> set (map fst m) \<Longrightarrow> map_of m k = None"
  by (simp add: map_of_eq_None_iff)

lemma rename_label_canonical:
  assumes "canonical_label c"
  shows "rename_label COL_MAP c = c"
proof (cases "c \<in> set (map snd COL_MAP)")
  case True
  with col_targets_fixed show ?thesis
    by (simp only: list_all_iff)
next
  case False
  with assms have "c \<notin> set (map fst COL_MAP)"
    by (simp only: canonical_label_def) blast
  then have "map_of COL_MAP c = None" by (rule map_of_not_key)
  then show ?thesis by (simp add: rename_label_def)
qed

lemma replace_cell_canonical:
  assumes "canonical_cell v"
  shows "replace_cell VALUE_MAP v = v"
proof (cases v)
  case (Num q)
  then show ?thesis by simp
next
  case (Str s)
  show ?thesis
  proof (cases "s \<in> set (map snd VALUE_MAP)")
    case True
    with value_targets_fixed Str show ?thesis
      by (simp only: list_all_iff)
  next
    case False
    with assms Str have "s \<notin> set (map fst VALUE_MAP)"
      by (simp add: canonical_cell_def)
    then have "map_of VALUE_MAP s = None" by (rule map_of_not_key)
    with Str show ?thesis by simp
  qed
qed

text \<open>
  Claim C9. Normalizing a table that is already in canonical form changes nothing.
\<close>

theorem normalizer_canonical_noop:
  assumes "canonical_form df"
  shows "normalizer df = df"
proof -
  have c: "map (rename_label COL_MAP) (columns df) = columns df"
    using assms by (intro map_idI rename_label_canonical) (simp add: canonical_form_def list_all_iff)
  have "\<And>r. r \<in> set (rows df) \<Longrightarrow> map (replace_cell VALUE_MAP) r = r"
    using assms by (intro map_idI replace_cell_canonical) (simp add: canonical_form_def list_all_iff)
  then have r: "map (map (replace_cell VALUE_MAP)) (rows df) = rows df"
    by (rule map_idI)
  from c r show ?thesis
    by (simp add: normalizer_def replace_def rename_def)
qed

lemma rename_label_idem: "rename_label COL_MAP (rename_label COL_MAP c) = rename_label COL_MAP c"
proof (cases "map_of COL_MAP c")
  case None
  then show ?thesis by (simp add: rename_label_def)
next
  case (Some t)
  then have "t \<in> set (map snd COL_MAP)"
    by (metis map_of_SomeD set_zip_rightD zip_map_fst_snd)
  with col_targets_fixed have "rename_label COL_MAP t = t"
    by (simp only: list_all_iff)
  with Some show ?thesis by (simp add: rename_label_def)
qed

theorem normalizer_canonical_noop_witness:
  "canonical_form ex_c9 \<and> normalizer ex_c9 = ex_c9"
proof -
  have h: "canonical_form ex_c9"
    by (simp add: canonical_form_def canonical_label_def canonical_cell_def ex_c9_def COL_MAP_def VALUE_MAP_def)
  from h normalizer_canonical_noop [OF h] show ?thesis ..
qed

section \<open>Sequencing\<close>

lemma pbind_Inr_iff: "pbind m f = Inr y \<longleftrightarrow> (\<exists>x. m = Inr x \<and> f x = Inr y)"
  by (cases m) (simp_all add: pbind_def)

lemma pbind_Inr [simp]: "pbind (Inr x) f = f x"
  by (simp add: pbind_def)

lemma pbind_Inl [simp]: "pbind (Inl e) f = Inl e"
  by (simp add: pbind_def)

section \<open>Key metrics on an empty view\<close>

text \<open>
  Claim C3. On a filtered view with no record the four metrics are the average 0, the
  maximum 0, the count 0 and the empty string as most common role: a value is returned
  (no exception), and the average and the maximum are numbers (not NaN).
\<close>

theorem kpis_of_empty_view:
  assumes "rows fv = []"
  shows "compute_kpis fv =
           Inr \<lparr>avg_salary = Some 0, max_salary = Some 0, total_records = 0,
                most_common_role = Str ''''\<rparr>"
  using assms by (simp add: compute_kpis_def df_empty_def)

theorem kpis_of_empty_view_witness:
  "rows ex_no_rows = [] \<and>
   compute_kpis ex_no_rows =
     Inr \<lparr>avg_salary = Some 0, max_salary = Some 0, total_records = 0,
          most_common_role = Str ''''\<rparr>"
proof -
  have h: "rows ex_no_rows = []" by (simp add: ex_no_rows_def)
  from h kpis_of_empty_view [OF h] show ?thesis ..
qed

section \<open>The filter engine\<close>

lemma getcol_Inr:
  assumes "col_index df c = Inr i"
  shows "getcol df c = Inr (map (\<lambda>r. r ! i) (rows df))"
  using assms by (simp add: getcol_def)

lemma getcol_Inr_D:
  assumes "getcol df c = Inr s"
  shows "\<exists>i. col_index df c = Inr i \<and> s = map (\<lambda>r. r ! i) (rows df)"
  using assms by (auto simp: getcol_def pbind_Inr_iff)

lemma isin_map: "isin (map f xs) vals = map (\<lambda>x. f x \<in> set vals) xs"
  by (simp add: isin_def)

lemma mask_and_map: "mask_and (map P xs) (map Q xs) = map (\<lambda>x. P x \<and> Q x) xs"
  by (induction xs) (simp_all add: mask_and_def)

lemma keep_by_mask: "map fst (filter snd (zip xs (map P xs))) = filter P xs"
  by (induction xs) simp_all

lemma select_rows_map: "select_rows df (map P (rows df)) = df\<lparr>rows := filter P (rows df)\<rparr>"
  by (simp add: select_rows_def keep_by_mask)

lemma df_filtered_eq:
  assumes "col_index df ''year'' = Inr iy"
      and "col_index df ''seniority'' = Inr ie"
      and "col_index df ''contract_type'' = Inr ic"
      and "col_index df ''company_size'' = Inr iz"
  shows "df_filtered df sel =
           Inr (df\<lparr>rows := filter (\<lambda>r. r ! iy \<in> set (years_selected sel)
                                     \<and> r ! ie \<in> set (seniority_selected sel)
                                     \<and> r ! ic \<in> set (contracts_selected sel)
                                     \<and> r ! iz \<in> set (sizes_selected sel)) (rows df)\<rparr>)"
  by (simp add: df_filtered_def getcol_Inr [OF assms(1)] getcol_Inr [OF assms(2)]
        getcol_Inr [OF assms(3)] getcol_Inr [OF assms(4)]
        isin_map mask_and_map select_rows_map conj_assoc)

text \<open>
  Claim C2. On a table that has the four filter columns, the filter returns a table for
  every selection; its rows are rows of the table, and a row is kept if and only if, in
  each of the four dimensions, its value is one of the values selected.
\<close>

theorem filtered_view_conjunction:
  assumes "col_index df ''year'' = Inr iy"
      and "col_index df ''seniority'' = Inr ie"
      and "col_index df ''contract_type'' = Inr ic"
      and "col_index df ''company_size'' = Inr iz"
  shows "\<exists>fv. df_filtered df sel = Inr fv
            \<and> columns fv = columns df
            \<and> set (rows fv) \<subseteq> set (rows df)
            \<and> (\<forall>r. r \<in> set (rows fv) \<longleftrightarrow>
                   r \<in> set (rows df)
                   \<and> r ! iy \<in> set (years_selected sel)
                   \<and> r ! ie \<in> set (seniority_selected sel)
                   \<and> r ! ic \<in> set (contracts_selected sel)
                   \<and> r ! iz \<in> set (sizes_selected sel))"
  by (auto simp: df_filtered_eq [OF assms])

lemma ex_table_cols:
  "col_index ex_table ''year'' = Inr 0"
  "col_index ex_table ''seniority'' = Inr 1"
  "col_index ex_table ''contract_type'' = Inr 2"
  "col_index ex_table ''company_size'' = Inr 3"
  by (simp_all add: col_index_def ex_table_def)

theorem filtered_view_conjunction_witness:
  "\<exists>fv. df_filtered ex_table sel_2024 = Inr fv
      \<and> [Num 2024, Str ''senior'', Str ''full time'', Str ''medium'', Str ''A'', Num 100]
            \<in> set (rows fv)
      \<and> [Num 2023, Str ''senior'', Str ''full time'', Str ''large'', Str ''A'', Num 200]
            \<notin> set (rows fv)"
proof -
  from filtered_view_conjunction [OF ex_table_cols, of sel_2024]
  obtain fv where fv: "df_filtered ex_table sel_2024 = Inr fv"
    and mem: "\<And>r. r \<in> set (rows fv) \<longleftrightarrow>
                   r \<in> set (rows ex_table)
                   \<and> r ! 0 \<in> set (years_selected sel_2024)
                   \<and> r ! 1 \<in> set (seniority_selected sel_2024)
                   \<and> r ! 2 \<in> set (contracts_selected sel_2024)
                   \<and> r ! 3 \<in> set (sizes_selected sel_2024)"
    by blast
  have a: "[Num 2024, Str ''senior'', Str ''full time'', Str ''medium'', Str ''A'', Num 100]
            \<in> set (rows fv)"
    by (simp add: mem ex_table_def sel_2024_def)
  have b: "[Num 2023, Str ''senior'', Str ''full time'', Str ''large'', Str ''A'', Num 200]
            \<notin> set (rows fv)"
    by (simp add: mem ex_table_def sel_2024_def)
  from fv a b show ?thesis by blast
qed

lemma set_unique_from: "set (unique_from seen xs) = set xs - set seen"
  by (induction xs arbitrary: seen) auto

lemma set_unique: "set (unique xs) = set xs"
  by (simp add: unique_def set_unique_from)

lemma distinct_unique_from: "distinct (unique_from seen xs)"
  by (induction xs arbitrary: seen) (auto simp: set_unique_from)

lemma distinct_unique: "distinct (unique xs)"
  by (simp add: unique_def distinct_unique_from)

lemma sorted_py_set:
  assumes "sorted_py xs = Inr ys"
  shows "set ys = set xs"
  using assms by (auto simp: sorted_py_def split: if_splits)

lemma available_set:
  assumes "pbind (getcol df c) (\<lambda>s. sorted_py (unique s)) = Inr ys"
  shows "\<exists>i. col_index df c = Inr i \<and> set ys = (\<lambda>r. r ! i) ` set (rows df)"
proof -
  from assms obtain s where s: "getcol df c = Inr s" and y: "sorted_py (unique s) = Inr ys"
    by (auto simp: pbind_Inr_iff)
  from getcol_Inr_D [OF s] obtain i where i: "col_index df c = Inr i"
    and sm: "s = map (\<lambda>r. r ! i) (rows df)" by blast
  from sorted_py_set [OF y] have "set ys = set s" by (simp add: set_unique)
  with sm i show ?thesis by auto
qed

lemma filter_all: "(\<And>x. x \<in> set xs \<Longrightarrow> P x) \<Longrightarrow> filter P xs = xs"
  by (induction xs) auto

text \<open>
  Claim C8. With the default selection (in every dimension, all the values that occur in
  the table) the filter returns the table itself.
\<close>

theorem full_selection_is_identity:
  assumes "default_selection df = Inr sel"
  shows "df_filtered df sel = Inr df"
proof -
  from assms obtain y s c z where
        y: "years_available df = Inr y"
    and s: "seniority_available df = Inr s"
    and c: "contracts_available df = Inr c"
    and z: "sizes_available df = Inr z"
    and sel: "sel = \<lparr>years_selected = y, seniority_selected = s,
                     contracts_selected = c, sizes_selected = z\<rparr>"
    by (auto simp: default_selection_def pbind_Inr_iff)
  from available_set [OF y [unfolded years_available_def]]
  obtain iy where iy: "col_index df ''year'' = Inr iy"
    and sy: "set y = (\<lambda>r. r ! iy) ` set (rows df)" by blast
  from available_set [OF s [unfolded seniority_available_def]]
  obtain ie where ie: "col_index df ''seniority'' = Inr ie"
    and ss: "set s = (\<lambda>r. r ! ie) ` set (rows df)" by blast
  from available_set [OF c [unfolded contracts_available_def]]
  obtain ic where ic: "col_index df ''contract_type'' = Inr ic"
    and sc: "set c = (\<lambda>r. r ! ic) ` set (rows df)" by blast
  from available_set [OF z [unfolded sizes_available_def]]
  obtain iz where iz: "col_index df ''company_size'' = Inr iz"
    and sz: "set z = (\<lambda>r. r ! iz) ` set (rows df)" by blast
  have keep: "filter (\<lambda>r. r ! iy \<in> set (years_selected sel)
                          \<and> r ! ie \<in> set (seniority_selected sel)
                          \<and> r ! ic \<in> set (contracts_selected sel)
                          \<and> r ! iz \<in> set (sizes_selected sel)) (rows df) = rows df"
    by (rule filter_all) (simp add: sel sy ss sc sz)
  show ?thesis
    by (simp add: df_filtered_eq [OF iy ie ic iz] keep)
qed

lemma ex_table_default_selection: "default_selection ex_table = Inr ex_table_default"
  by code_simp

theorem full_selection_is_identity_witness:
  "default_selection ex_table = Inr ex_table_default
   \<and> df_filtered ex_table ex_table_default = Inr ex_table"
proof -
  have h: "default_selection ex_table = Inr ex_table_default"
    by (rule ex_table_default_selection)
  from h full_selection_is_identity [OF h] show ?thesis ..
qed

section \<open>The geographic chart\<close>

lemma filter_none: "(\<And>x. x \<in> set xs \<Longrightarrow> \<not> P x) \<Longrightarrow> filter P xs = []"
  by (induction xs) auto

lemma fig_map_empty:
  assumes "df_empty fv"
  shows "fig_map fv = Inr (Warning ''No data available for countries.'')"
  using assms by (simp add: fig_map_def)

lemma fig_map_no_ds:
  assumes "\<not> df_empty fv"
      and "getcol fv ''role'' = Inr rs"
      and "Str ''Data Scientist'' \<notin> set rs"
  shows "fig_map fv = Inr (Info ''No Data Scientist records in the current filter.'')"
proof -
  from getcol_Inr_D [OF assms(2)] obtain i where
    rs: "rs = map (\<lambda>r. r ! i) (rows fv)" by blast
  have "filter (\<lambda>r. r ! i = Str ''Data Scientist'') (rows fv) = []"
  proof (rule filter_none)
    fix x assume "x \<in> set (rows fv)"
    then have "x ! i \<in> set rs" by (simp add: rs)
    with assms(3) show "x ! i \<noteq> Str ''Data Scientist''" by metis
  qed
  then have "rows (select_rows fv (map (\<lambda>v. v = Str ''Data Scientist'') rs)) = []"
    using select_rows_map [of fv "\<lambda>r. r ! i = Str ''Data Scientist''"]
    by (simp add: rs comp_def)
  then have "df_empty (select_rows fv (map (\<lambda>v. v = Str ''Data Scientist'') rs))"
    by (simp add: df_empty_def)
  with assms(1,2) show ?thesis
    by (simp add: fig_map_def)
qed

text \<open>
  Claim C6 says that the informational message is shown whenever no record of the view
  has the role \<open>Data Scientist\<close>, also when the view is empty. On the empty view
  \<open>ex_no_rows\<close> the script takes the outer \<open>else\<close> and shows the warning of line 173.
\<close>

theorem empty_view_gets_warning_not_info:
  "rows ex_no_rows = []
   \<and> fig_map ex_no_rows = Inr (Warning ''No data available for countries.'')
   \<and> fig_map ex_no_rows \<noteq> Inr (Info ''No Data Scientist records in the current filter.'')"
proof -
  have e: "df_empty ex_no_rows" by (simp add: df_empty_def ex_no_rows_def)
  show ?thesis
    by (simp add: fig_map_empty [OF e]) (simp add: ex_no_rows_def)
qed

text \<open>
  Claim C6, as the code has it. On a view that has records, none of them with the role
  \<open>Data Scientist\<close>, the geographic region shows the informational message; on an empty
  view it shows the warning, as the other regions do. No other region ever shows the
  informational message.
\<close>

theorem no_data_scientist_message:
  assumes "getcol fv ''role'' = Inr rs"
  shows "(\<not> df_empty fv \<and> Str ''Data Scientist'' \<notin> set rs \<longrightarrow>
            fig_map fv = Inr (Info ''No Data Scientist records in the current filter.''))
       \<and> (df_empty fv \<longrightarrow> fig_map fv = Inr (Warning ''No data available for countries.''))
       \<and> top_roles fv \<noteq> Inr (Info ''No Data Scientist records in the current filter.'')
       \<and> wm_counts fv \<noteq> Inr (Info ''No Data Scientist records in the current filter.'')"
proof -
  have t: "top_roles fv \<noteq> Inr (Info ''No Data Scientist records in the current filter.'')"
    by (auto simp: top_roles_def pbind_Inr_iff)
  have w: "wm_counts fv \<noteq> Inr (Info ''No Data Scientist records in the current filter.'')"
    by (auto simp: wm_counts_def pbind_Inr_iff)
  from t w fig_map_empty fig_map_no_ds [OF _ assms] show ?thesis by blast
qed

lemma ex_table_role:
  "getcol ex_table ''role'' = Inr [Str ''A'', Str ''A'', Str ''B'']"
  by (simp add: getcol_def col_index_def ex_table_def)

theorem no_data_scientist_message_witness:
  "fig_map ex_table = Inr (Info ''No Data Scientist records in the current filter.'')
   \<and> fig_map ex_no_rows = Inr (Warning ''No data available for countries.'')"
proof -
  have n: "\<not> df_empty ex_table" by (simp add: df_empty_def ex_table_def)
  have d: "Str ''Data Scientist'' \<notin> set [Str ''A'', Str ''A'', Str ''B'']" by simp
  from no_data_scientist_message [OF ex_table_role] n d
  have a: "fig_map ex_table = Inr (Info ''No Data Scientist records in the current filter.'')"
    by blast
  have r: "getcol ex_no_rows ''role'' = Inr []"
    by (simp add: getcol_def col_index_def ex_no_rows_def)
  have e: "df_empty ex_no_rows" by (simp add: df_empty_def ex_no_rows_def)
  from no_data_scientist_message [OF r] e
  have b: "fig_map ex_no_rows = Inr (Warning ''No data available for countries.'')"
    by blast
  from a b show ?thesis ..
qed

text \<open>
  The renaming turns every label \<open>residencia_iso3\<close> into \<open>country_iso3\<close>, so the
  label that line 159 falls back to is never a column of the normalized table.
\<close>

lemma fallback_label_is_renamed: "''residencia_iso3'' \<notin> set (columns (normalizer raw))"
proof
  assume "''residencia_iso3'' \<in> set (columns (normalizer raw))"
  then obtain l where l: "rename_label COL_MAP l = ''residencia_iso3''"
    by (auto simp: columns_normalizer)
  show False
  proof (cases "map_of COL_MAP l")
    case None
    with l have "l = ''residencia_iso3''" by (simp add: rename_label_def)
    with None show False by (simp add: COL_MAP_def)
  next
    case (Some t)
    with l have "t = ''residencia_iso3''" by (simp add: rename_label_def)
    with Some have "(l, ''residencia_iso3'') \<in> set COL_MAP" by (simp add: map_of_SomeD)
    then show False by (simp add: COL_MAP_def)
  qed
qed

section \<open>The most common role\<close>

lemma htable_mode_eq:
  "htable_mode xs =
     filter (\<lambda>v. count_list xs v = fold max (map (count_list xs) (unique xs)) 0) (unique xs)"
  by (simp add: htable_mode_def value_count_def Let_def filter_map comp_def)

lemma fold_max_Max: "fold max ys (a::nat) = Max (insert a (set ys))"
  using Max.set_eq_fold [of a ys] by simp

lemma count_list_pos: "x \<in> set xs \<Longrightarrow> 0 < count_list xs x"
  by (induction xs) auto

lemma top_count_attained:
  assumes "xs \<noteq> []"
  shows "\<exists>v\<in>set xs. count_list xs v = fold max (map (count_list xs) (unique xs)) 0"
proof -
  let ?S = "insert 0 (count_list xs ` set xs)"
  have fin: "finite ?S" by simp
  have M: "fold max (map (count_list xs) (unique xs)) 0 = Max ?S"
    by (simp add: fold_max_Max set_unique)
  from assms obtain x where x: "x \<in> set xs" by (cases xs) auto
  then have "count_list xs x \<in> ?S" by simp
  then have "count_list xs x \<le> Max ?S" using fin by (rule_tac Max_ge)
  with count_list_pos [OF x] have pos: "0 < Max ?S" by linarith
  have "Max ?S \<in> ?S" using fin by (rule_tac Max_in) simp_all
  with pos have "Max ?S \<in> count_list xs ` set xs" by auto
  with M show ?thesis by auto
qed

lemma top_count_bound:
  assumes "v \<in> set xs"
  shows "count_list xs v \<le> fold max (map (count_list xs) (unique xs)) 0"
proof -
  let ?S = "insert 0 (count_list xs ` set xs)"
  have "count_list xs v \<in> ?S" using assms by simp
  then have "count_list xs v \<le> Max ?S" by (rule_tac Max_ge) simp_all
  then show ?thesis by (simp add: fold_max_Max set_unique)
qed

lemma set_htable_mode:
  "set (htable_mode xs) =
     {v \<in> set xs. count_list xs v = fold max (map (count_list xs) (unique xs)) 0}"
  by (simp add: htable_mode_eq set_unique)

lemma htable_mode_nonempty: "xs \<noteq> [] \<Longrightarrow> htable_mode xs \<noteq> []"
  using top_count_attained [of xs] set_htable_mode [of xs]
  by (metis (mono_tags, lifting) empty_iff mem_Collect_eq set_empty)

lemma cell_key_Str_le: "cell_key (Str a) \<le> cell_key (Str b) \<longleftrightarrow> a \<le> b"
  by (simp add: cell_key_def)

lemma sort_key_first_least:
  assumes "sort_key f xs = y # ys" and "x \<in> set xs"
  shows "f y \<le> f x"
proof -
  have "sorted (map f (sort_key f xs))" by (rule sorted_sort_key)
  with assms(1) have "\<forall>z\<in>set ys. f y \<le> f z" by simp
  moreover have "x \<in> set (sort_key f xs)" using assms(2) by simp
  ultimately show ?thesis using assms(1) by auto
qed

lemma first_mode_of_strings:
  assumes "rs \<noteq> []" and "list_all is_Str rs"
  shows "\<exists>m. first_item (series_mode rs) = Inr m
           \<and> m \<in> set rs
           \<and> (\<forall>r\<in>set rs. count_list rs r \<le> count_list rs m)
           \<and> (\<forall>r\<in>set rs. count_list rs r = count_list rs m \<longrightarrow> str_of m \<le> str_of r)"
proof -
  let ?top = "fold max (map (count_list rs) (unique rs)) 0"
  let ?ms = "htable_mode rs"
  have sub: "set ?ms \<subseteq> set rs" by (auto simp: set_htable_mode)
  with assms(2) have strs: "list_all is_Str ?ms" by (auto simp: list_all_iff)
  then have sm: "series_mode rs = sort_key cell_key ?ms"
    by (simp add: series_mode_def sorted_py_def Let_def)
  have "sort_key cell_key ?ms \<noteq> []"
    using htable_mode_nonempty [OF assms(1)] by (metis length_sort list.size(3) length_0_conv)
  then obtain m ys where my: "sort_key cell_key ?ms = m # ys" by (cases "sort_key cell_key ?ms") auto
  then have "m \<in> set (sort_key cell_key ?ms)" by simp
  then have mm: "m \<in> set ?ms" by simp
  then have m_rs: "m \<in> set rs" and m_top: "count_list rs m = ?top"
    by (auto simp: set_htable_mode)
  have fi: "first_item (series_mode rs) = Inr m" by (simp add: sm my first_item_def)
  have a: "\<forall>r\<in>set rs. count_list rs r \<le> count_list rs m"
    by (simp add: m_top top_count_bound)
  have b: "\<forall>r\<in>set rs. count_list rs r = count_list rs m \<longrightarrow> str_of m \<le> str_of r"
  proof (intro ballI impI)
    fix r assume r: "r \<in> set rs" and c: "count_list rs r = count_list rs m"
    then have "r \<in> set ?ms" by (simp add: set_htable_mode m_top)
    from sort_key_first_least [OF my this] have le: "cell_key m \<le> cell_key r" .
    from assms(2) r m_rs obtain a b where "m = Str a" "r = Str b"
      by (metis cell.collapse(2) list_all_iff)
    with le show "str_of m \<le> str_of r" by (simp add: cell_key_Str_le)
  qed
  from fi m_rs a b show ?thesis by blast
qed

text \<open>
  Claim C4, as the code has it. On a view that has records, a numeric \<open>usd\<close> column and
  job titles that are strings, the metrics are computed, and the most common role is a
  job title of the highest frequency in the view; when several job titles share that
  frequency it is the least of them in the order of strings (\<open>mode()\<close> sorts its
  result, and the script takes the first entry).
\<close>

theorem most_common_role_is_least_mode:
  assumes "\<not> df_empty fv"
      and "getcol fv ''usd'' = Inr us" and "list_all is_Num us"
      and "getcol fv ''role'' = Inr rs" and "list_all is_Str rs"
  shows "\<exists>k. compute_kpis fv = Inr k
           \<and> most_common_role k \<in> set rs
           \<and> (\<forall>r\<in>set rs. count_list rs r \<le> count_list rs (most_common_role k))
           \<and> (\<forall>r\<in>set rs. count_list rs r = count_list rs (most_common_role k)
                  \<longrightarrow> str_of (most_common_role k) \<le> str_of r)"
proof -
  from getcol_Inr_D [OF assms(4)] assms(1) have ne: "rs \<noteq> []"
    by (auto simp: df_empty_def)
  from first_mode_of_strings [OF ne assms(5)] obtain m where
        fi: "first_item (series_mode rs) = Inr m"
    and p: "m \<in> set rs" "\<forall>r\<in>set rs. count_list rs r \<le> count_list rs m"
           "\<forall>r\<in>set rs. count_list rs r = count_list rs m \<longrightarrow> str_of m \<le> str_of r"
    by blast
  have "compute_kpis fv =
          Inr \<lparr>avg_salary = series_mean (map num_of us), max_salary = series_max (map num_of us),
               total_records = length (rows fv), most_common_role = m\<rparr>"
    using assms(1,2,3,4) fi by (simp add: compute_kpis_def nums_def)
  with p show ?thesis by simp
qed

text \<open>
  Claim C4 says that a tie goes to the role met first in the order of the records. In
  \<open>ex_tie\<close> both roles occur once, \<open>Engineer\<close> is met first, and the script shows
  \<open>Analyst\<close>.
\<close>

theorem first_met_role_is_not_returned:
  "getcol ex_tie ''role'' = Inr [Str ''Engineer'', Str ''Analyst'']
   \<and> count_list [Str ''Engineer'', Str ''Analyst''] (Str ''Engineer'') = 1
   \<and> count_list [Str ''Engineer'', Str ''Analyst''] (Str ''Analyst'') = 1
   \<and> spec_most_common_role [Str ''Engineer'', Str ''Analyst''] = Some (Str ''Engineer'')
   \<and> compute_kpis ex_tie =
       Inr \<lparr>avg_salary = Some 150, max_salary = Some 200, total_records = 2,
            most_common_role = Str ''Analyst''\<rparr>"
  by code_simp

theorem most_common_role_is_least_mode_witness:
  "\<exists>k. compute_kpis ex_tie = Inr k \<and> most_common_role k = Str ''Analyst''"
proof -
  have n: "\<not> df_empty ex_tie"
    by (simp add: df_empty_def ex_tie_def)
  have u: "getcol ex_tie ''usd'' = Inr [Num 100, Num 200]"
    by (simp add: getcol_def col_index_def ex_tie_def)
  have un: "list_all is_Num [Num 100, Num 200]"
    by simp
  have r: "getcol ex_tie ''role'' = Inr [Str ''Engineer'', Str ''Analyst'']"
    by (simp add: getcol_def col_index_def ex_tie_def)
  have rn: "list_all is_Str [Str ''Engineer'', Str ''Analyst'']"
    by simp
  from most_common_role_is_least_mode [OF n u un r rn]
  obtain k where k: "compute_kpis ex_tie = Inr k"
    and m: "most_common_role k \<in> set [Str ''Engineer'', Str ''Analyst'']"
    and least: "\<forall>r\<in>set [Str ''Engineer'', Str ''Analyst''].
                  count_list [Str ''Engineer'', Str ''Analyst''] r
                    = count_list [Str ''Engineer'', Str ''Analyst''] (most_common_role k)
                  \<longrightarrow> str_of (most_common_role k) \<le> str_of r"
    by blast
  have "most_common_role k \<noteq> Str ''Engineer''"
  proof
    assume e: "most_common_role k = Str ''Engineer''"
    from least have "count_list [Str ''Engineer'', Str ''Analyst''] (Str ''Analyst'')
                    = count_list [Str ''Engineer'', Str ''Analyst''] (most_common_role k)
                  \<longrightarrow> str_of (most_common_role k) \<le> str_of (Str ''Analyst'')"
      by simp
    then have "''Engineer'' \<le> ''Analyst''"
      by (simp add: e)
    then show False by simp
  qed
  with m have "most_common_role k = Str ''Analyst''" by simp
  with k show ?thesis by blast
qed

section \<open>The ten best paid roles\<close>

lemma groupby_mean_Inr:
  assumes "getcol df by = Inr ks" and "getcol df val = Inr vs" and "list_all is_Num vs"
  shows "groupby_mean df by val =
           Inr (map (\<lambda>k. (k, group_mean ks (map num_of vs) k)) (safe_sort (unique ks)))"
  using assms by (simp add: groupby_mean_def nums_def)

lemma set_safe_sort: "set (safe_sort xs) = set xs"
  by (simp add: safe_sort_def)

lemma distinct_safe_sort: "distinct (safe_sort xs) = distinct xs"
  by (simp add: safe_sort_def)

lemma set_nlargest: "set (nlargest n xs) \<subseteq> set xs"
  using set_take_subset [of n "sort_key (\<lambda>p. - snd p) xs"] by (simp add: nlargest_def)

lemma take_before_drop:
  assumes "sorted (map f ys)" and "p \<in> set (take n ys)" and "q \<in> set (drop n ys)"
  shows "f p \<le> f q"
proof -
  have "sorted (map f (take n ys) @ map f (drop n ys))"
    using assms(1) by (simp flip: map_append)
  then have "\<forall>x\<in>set (map f (take n ys)). \<forall>y\<in>set (map f (drop n ys)). x \<le> y"
    by (simp add: sorted_append)
  with assms(2,3) show ?thesis by auto
qed

lemma nlargest_keeps_largest:
  assumes "p \<in> set (nlargest n xs)" and "q \<in> set xs" and "q \<notin> set (nlargest n xs)"
  shows "snd q \<le> snd p"
proof -
  let ?ys = "sort_key (\<lambda>p. - snd p) xs"
  have s: "sorted (map (\<lambda>p. - snd p) ?ys)" by (rule sorted_sort_key)
  have "q \<in> set ?ys" using assms(2) by simp
  then have "q \<in> set (take n ?ys) \<union> set (drop n ?ys)"
    by (metis append_take_drop_id set_append)
  with assms(3) have q: "q \<in> set (drop n ?ys)" by (simp add: nlargest_def)
  from assms(1) have p: "p \<in> set (take n ?ys)" by (simp add: nlargest_def)
  from take_before_drop [OF s p q] show ?thesis by simp
qed

lemma distinct_fst_sort_key:
  assumes "distinct (map fst xs)"
  shows "distinct (map fst (sort_key f xs))"
  using assms by (simp add: distinct_map)

lemma distinct_fst_take:
  assumes "distinct (map fst xs)"
  shows "distinct (map fst (take n xs))"
  using assms by (simp add: distinct_take flip: take_map)


lemma top_roles_ex_twelve:
  "top_roles ex_twelve =
     Inr (Chart [(Str ''r03'', 3), (Str ''r04'', 4), (Str ''r05'', 5), (Str ''r06'', 6),
                 (Str ''r07'', 7), (Str ''r08'', 8), (Str ''r09'', 9), (Str ''r10'', 10),
                 (Str ''r11'', 11), (Str ''r12'', 12)])"
  by code_simp


section \<open>Missing columns\<close>

lemma getcol_missing:
  assumes "c \<notin> set (columns df)"
  shows "getcol df c = Inl (KeyError c)"
  using assms by (simp add: getcol_def col_index_def)

lemma no_value_fails:
  assumes "\<And>k. x \<noteq> Inr k"
  shows "\<exists>e. x = Inl e"
  using assms by (cases x) auto

lemma normalized_label_origin:
  assumes "c \<in> set (columns (normalizer raw))"
  shows "c \<in> set (columns raw) \<or> (\<exists>s. (s, c) \<in> set COL_MAP \<and> s \<in> set (columns raw))"
proof -
  from assms obtain l where l: "l \<in> set (columns raw)" and r: "rename_label COL_MAP l = c"
    by (auto simp: columns_normalizer)
  show ?thesis
  proof (cases "map_of COL_MAP l")
    case None
    with r have "l = c" by (simp add: rename_label_def)
    with l show ?thesis by simp
  next
    case (Some t)
    with r have "t = c" by (simp add: rename_label_def)
    with Some have "(l, c) \<in> set COL_MAP" by (simp add: map_of_SomeD)
    with l show ?thesis by blast
  qed
qed

lemma df_filtered_columns:
  assumes "df_filtered df sel = Inr fv"
  shows "columns fv = columns df"
  using assms by (auto simp: df_filtered_def pbind_Inr_iff select_rows_def)

lemma available_missing:
  assumes "c \<notin> set (columns df)"
  shows "pbind (getcol df c) (\<lambda>s. sorted_py (unique s)) = Inl (KeyError c)"
  by (simp add: getcol_missing [OF assms])

lemma default_selection_missing:
  assumes "c \<notin> set (columns df)"
      and "c \<in> {''year'', ''seniority'', ''contract_type'', ''company_size''}"
  shows "\<exists>e. default_selection df = Inl e"
proof (rule no_value_fails)
  fix k
  show "default_selection df \<noteq> Inr k"
    using assms
    by (auto simp: default_selection_def years_available_def seniority_available_def
          contracts_available_def sizes_available_def pbind_Inr_iff getcol_missing)
qed

lemma df_filtered_missing:
  assumes "c \<notin> set (columns df)"
      and "c \<in> {''year'', ''seniority'', ''contract_type'', ''company_size''}"
  shows "\<exists>e. df_filtered df sel = Inl e"
proof (rule no_value_fails)
  fix k
  show "df_filtered df sel \<noteq> Inr k"
    using assms by (auto simp: df_filtered_def pbind_Inr_iff getcol_missing)
qed

lemma app_missing_filter_column:
  assumes "c \<notin> set (columns (normalizer raw))"
      and "c \<in> {''year'', ''seniority'', ''contract_type'', ''company_size''}"
  shows "\<exists>e. app raw pick = Inl e"
proof -
  from default_selection_missing [OF assms] obtain e where
    "default_selection (normalizer raw) = Inl e" by blast
  then show ?thesis by (simp add: app_def Let_def)
qed

lemma kpis_missing_usd:
  assumes "''usd'' \<notin> set (columns fv)" and "\<not> df_empty fv"
  shows "compute_kpis fv = Inl (KeyError ''usd'')"
  using assms by (simp add: compute_kpis_def getcol_missing)

lemma kpis_missing_role:
  assumes "''role'' \<notin> set (columns fv)" and "\<not> df_empty fv"
  shows "\<exists>e. compute_kpis fv = Inl e"
proof (rule no_value_fails)
  fix k
  show "compute_kpis fv \<noteq> Inr k"
    using assms by (auto simp: compute_kpis_def pbind_Inr_iff getcol_missing)
qed

lemma top_roles_missing_role:
  assumes "''role'' \<notin> set (columns fv)" and "\<not> df_empty fv"
  shows "top_roles fv = Inl (KeyError ''role'')"
  using assms by (simp add: top_roles_def groupby_mean_def getcol_missing)

lemma top_roles_missing_usd:
  assumes "''usd'' \<notin> set (columns fv)" and "\<not> df_empty fv"
  shows "\<exists>e. top_roles fv = Inl e"
proof (rule no_value_fails)
  fix k
  show "top_roles fv \<noteq> Inr k"
    using assms by (auto simp: top_roles_def groupby_mean_def pbind_Inr_iff getcol_missing)
qed

lemma fig_map_missing_role:
  assumes "''role'' \<notin> set (columns fv)" and "\<not> df_empty fv"
  shows "fig_map fv = Inl (KeyError ''role'')"
  using assms by (simp add: fig_map_def getcol_missing)

lemma wm_counts_missing:
  assumes "''work_model'' \<notin> set (columns fv)" and "\<not> df_empty fv"
  shows "wm_counts fv = Inl (KeyError ''work_model'')"
  using assms by (simp add: wm_counts_def getcol_missing)

lemma app_missing_metric_column:
  assumes "c \<notin> set (columns (normalizer raw))"
      and "c \<in> {''usd'', ''role'', ''work_model''}"
      and "app raw pick = Inr page"
  shows "df_empty (detail page)"
proof (rule ccontr)
  assume ne: "\<not> df_empty (detail page)"
  from assms(3) obtain dflt k w where
        f: "df_filtered (normalizer raw) (pick dflt) = Inr (detail page)"
    and k: "compute_kpis (detail page) = Inr k"
    and w: "wm_counts (detail page) = Inr w"
    by (auto simp: app_def Let_def pbind_Inr_iff)
  from df_filtered_columns [OF f] assms(1) have c: "c \<notin> set (columns (detail page))"
    by simp
  from assms(2) show False
  proof (elim insertE emptyE)
    assume "c = ''usd''"
    with c kpis_missing_usd [OF _ ne] k show False by simp
  next
    assume "c = ''role''"
    with c kpis_missing_role [OF _ ne] k show False by auto
  next
    assume "c = ''work_model''"
    with c wm_counts_missing [OF _ ne] w show False by simp
  qed
qed

section \<open>The fallback label of the geographic chart\<close>

lemma col_index_rows_update: "col_index (df\<lparr>rows := x\<rparr>) c = col_index df c"
  by (simp add: col_index_def)

lemma getcol_rows_update:
  assumes "col_index df c = Inr i"
  shows "getcol (df\<lparr>rows := x\<rparr>) c = Inr (map (\<lambda>r. r ! i) x)"
  using assms by (simp add: getcol_def col_index_rows_update)

lemma col_index_Inr_mem:
  assumes "col_index df c = Inr i"
  shows "c \<in> set (columns df)"
  using assms by (auto simp: col_index_def split: if_splits)

lemma select_data_scientists:
  assumes "col_index fv ''role'' = Inr ir"
  shows "select_rows fv (map (\<lambda>v. v = Str ''Data Scientist'') (map (\<lambda>r. r ! ir) (rows fv)))
           = fv\<lparr>rows := filter (\<lambda>r. r ! ir = Str ''Data Scientist'') (rows fv)\<rparr>"
  using select_rows_map [of fv "\<lambda>r. r ! ir = Str ''Data Scientist''"]
  by (simp add: comp_def)


lemma ex_fallback_chart:
  "map (\<lambda>k. (k, group_mean
                 (map (\<lambda>r. r ! 2) [[Str ''Data Scientist'', Num 100, Str ''BRA''],
                                   [Str ''Data Scientist'', Num 300, Str ''BRA''],
                                   [Str ''Data Scientist'', Num 50, Str ''USA'']])
                 (map (\<lambda>r. num_of (r ! 1)) [[Str ''Data Scientist'', Num 100, Str ''BRA''],
                                              [Str ''Data Scientist'', Num 300, Str ''BRA''],
                                              [Str ''Data Scientist'', Num 50, Str ''USA'']]) k))
     (safe_sort (unique (map (\<lambda>r. r ! 2) [[Str ''Data Scientist'', Num 100, Str ''BRA''],
                                           [Str ''Data Scientist'', Num 300, Str ''BRA''],
                                           [Str ''Data Scientist'', Num 50, Str ''USA'']])))
   = [(Str ''BRA'', 200), (Str ''USA'', 50)]"
  by code_simp



section \<open>Missing columns: the geographic chart and the empty view\<close>

lemma columns_select_rows: "columns (select_rows df keep) = columns df"
  by (simp add: select_rows_def)

lemma groupby_mean_missing_value:
  assumes "val \<notin> set (columns df)"
  shows "groupby_mean df by val \<noteq> Inr g"
  using assms by (auto simp: groupby_mean_def pbind_Inr_iff getcol_missing)

lemma fig_map_missing_usd:
  assumes "''usd'' \<notin> set (columns fv)" and "\<not> df_empty fv"
      and "\<not> (\<exists>rs. getcol fv ''role'' = Inr rs \<and> Str ''Data Scientist'' \<notin> set rs)"
  shows "\<exists>e. fig_map fv = Inl e"
proof (cases "getcol fv ''role''")
  case (Inl e)
  with assms(2) show ?thesis by (simp add: fig_map_def)
next
  case (Inr rs)
  let ?ds = "select_rows fv (map (\<lambda>v. v = Str ''Data Scientist'') rs)"
  have u: "''usd'' \<notin> set (columns ?ds)"
    using assms(1) by (simp add: columns_select_rows)
  have "\<And>col. \<exists>e. pbind (groupby_mean ?ds col ''usd'') (\<lambda>g. Inr (Chart g)) = Inl e"
  proof -
    fix col
    show "\<exists>e. pbind (groupby_mean ?ds col ''usd'') (\<lambda>g. Inr (Chart g)) = Inl e"
      using groupby_mean_missing_value [OF u, of col]
      by (cases "groupby_mean ?ds col ''usd''") auto
  qed
  note fails = this
  from Inr assms(3) have has: "Str ''Data Scientist'' \<in> set rs" by blast
  from getcol_Inr_D [OF Inr] obtain i where rs: "rs = map (\<lambda>r. r ! i) (rows fv)" by blast
  from has rs obtain r where r: "r \<in> set (rows fv)" "r ! i = Str ''Data Scientist''"
    by auto
  have "rows ?ds = filter (\<lambda>r. r ! i = Str ''Data Scientist'') (rows fv)"
    using select_rows_map [of fv "\<lambda>r. r ! i = Str ''Data Scientist''"]
    by (simp add: rs comp_def)
  moreover from r have "r \<in> set (filter (\<lambda>r. r ! i = Str ''Data Scientist'') (rows fv))"
    by simp
  ultimately have "r \<in> set (rows ?ds)" by simp
  then have "rows ?ds \<noteq> []" by auto
  moreover have "columns ?ds \<noteq> []"
    using assms(2) by (simp add: columns_select_rows df_empty_def)
  ultimately have ne: "\<not> df_empty ?ds" by (simp add: df_empty_def)
  show ?thesis
    using assms(2) Inr ne fails by (simp add: fig_map_def Let_def)
qed

lemma empty_view_fallbacks:
  assumes "df_empty fv"
  shows "compute_kpis fv =
           Inr \<lparr>avg_salary = Some 0, max_salary = Some 0, total_records = 0,
                most_common_role = Str []\<rparr>
       \<and> top_roles fv = Inr (Warning ''No data available for roles.'')
       \<and> wm_counts fv = Inr (Warning ''No data available for work model.'')
       \<and> fig_map fv = Inr (Warning ''No data available for countries.'')"
  using assms by (simp add: compute_kpis_def top_roles_def wm_counts_def fig_map_def)

text \<open>
  Claim C7, as the code has it. When the CSV has a column neither under its source label
  nor under its canonical label \<open>c\<close>, the normalized table has no column \<open>c\<close>, and every
  access to it raises \<open>KeyError\<close> naming \<open>c\<close>. When \<open>c\<close> is a filter dimension, its
  option list raises that error, and the filter and the whole script raise. On a view that
  has records: without \<open>usd\<close> the metrics raise \<open>KeyError\<close> naming it, the chart of
  roles raises, and the geographic chart raises unless the role column can be read and
  holds no Data Scientist, when it shows the informational message; without \<open>role\<close> the
  metrics raise and the chart of roles and the geographic chart raise \<open>KeyError\<close> naming
  it; without \<open>work_model\<close> the chart of work models raises \<open>KeyError\<close> naming it; so
  the script completes only when the view is empty. On an empty view no column is read:
  the metrics are the fallback values and every chart region shows its warning. The
  column \<open>country_iso3\<close> and its fallback are the subject of claim C10.
\<close>

theorem missing_column_raises:
  assumes "c \<notin> set (columns raw)"
      and "\<forall>s. (s, c) \<in> set COL_MAP \<longrightarrow> s \<notin> set (columns raw)"
  shows "getcol (normalizer raw) c = Inl (KeyError c)
       \<and> (c = ''year'' \<longrightarrow> years_available (normalizer raw) = Inl (KeyError c))
       \<and> (c = ''seniority'' \<longrightarrow> seniority_available (normalizer raw) = Inl (KeyError c))
       \<and> (c = ''contract_type'' \<longrightarrow> contracts_available (normalizer raw) = Inl (KeyError c))
       \<and> (c = ''company_size'' \<longrightarrow> sizes_available (normalizer raw) = Inl (KeyError c))
       \<and> (c \<in> {''year'', ''seniority'', ''contract_type'', ''company_size''} \<longrightarrow>
            (\<forall>sel. \<exists>e. df_filtered (normalizer raw) sel = Inl e)
            \<and> (\<forall>pick. \<exists>e. app raw pick = Inl e))
       \<and> (\<forall>fv. columns fv = columns (normalizer raw) \<and> \<not> df_empty fv \<longrightarrow>
              (c = ''usd'' \<longrightarrow>
                 compute_kpis fv = Inl (KeyError c)
                 \<and> (\<exists>e. top_roles fv = Inl e)
                 \<and> ((\<exists>rs. getcol fv ''role'' = Inr rs \<and> Str ''Data Scientist'' \<notin> set rs) \<longrightarrow>
                       fig_map fv = Inr (Info ''No Data Scientist records in the current filter.''))
                 \<and> (\<not> (\<exists>rs. getcol fv ''role'' = Inr rs \<and> Str ''Data Scientist'' \<notin> set rs) \<longrightarrow>
                       (\<exists>e. fig_map fv = Inl e)))
            \<and> (c = ''role'' \<longrightarrow>
                 (\<exists>e. compute_kpis fv = Inl e) \<and> top_roles fv = Inl (KeyError c)
                 \<and> fig_map fv = Inl (KeyError c))
            \<and> (c = ''work_model'' \<longrightarrow> wm_counts fv = Inl (KeyError c)))
       \<and> (c \<in> {''usd'', ''role'', ''work_model''} \<longrightarrow>
            (\<forall>pick page. app raw pick = Inr page \<longrightarrow> df_empty (detail page)))
       \<and> (\<forall>fv. df_empty fv \<longrightarrow>
              compute_kpis fv =
                Inr \<lparr>avg_salary = Some 0, max_salary = Some 0, total_records = 0,
                     most_common_role = Str ''''\<rparr>
            \<and> top_roles fv = Inr (Warning ''No data available for roles.'')
            \<and> wm_counts fv = Inr (Warning ''No data available for work model.'')
            \<and> fig_map fv = Inr (Warning ''No data available for countries.''))"
proof -
  have m: "c \<notin> set (columns (normalizer raw))"
    using assms normalized_label_origin [of c raw] by blast
  have g: "getcol (normalizer raw) c = Inl (KeyError c)"
    by (rule getcol_missing [OF m])
  have a: "(c = ''year'' \<longrightarrow> years_available (normalizer raw) = Inl (KeyError c))
       \<and> (c = ''seniority'' \<longrightarrow> seniority_available (normalizer raw) = Inl (KeyError c))
       \<and> (c = ''contract_type'' \<longrightarrow> contracts_available (normalizer raw) = Inl (KeyError c))
       \<and> (c = ''company_size'' \<longrightarrow> sizes_available (normalizer raw) = Inl (KeyError c))"
    using available_missing [OF m]
    by (auto simp: years_available_def seniority_available_def contracts_available_def
          sizes_available_def)
  have f: "c \<in> {''year'', ''seniority'', ''contract_type'', ''company_size''} \<longrightarrow>
            (\<forall>sel. \<exists>e. df_filtered (normalizer raw) sel = Inl e)
            \<and> (\<forall>pick. \<exists>e. app raw pick = Inl e)"
    using df_filtered_missing [OF m] app_missing_filter_column [OF m] by blast
  have v: "\<forall>fv. columns fv = columns (normalizer raw) \<and> \<not> df_empty fv \<longrightarrow>
              (c = ''usd'' \<longrightarrow>
                 compute_kpis fv = Inl (KeyError c)
                 \<and> (\<exists>e. top_roles fv = Inl e)
                 \<and> ((\<exists>rs. getcol fv ''role'' = Inr rs \<and> Str ''Data Scientist'' \<notin> set rs) \<longrightarrow>
                       fig_map fv = Inr (Info ''No Data Scientist records in the current filter.''))
                 \<and> (\<not> (\<exists>rs. getcol fv ''role'' = Inr rs \<and> Str ''Data Scientist'' \<notin> set rs) \<longrightarrow>
                       (\<exists>e. fig_map fv = Inl e)))
            \<and> (c = ''role'' \<longrightarrow>
                 (\<exists>e. compute_kpis fv = Inl e) \<and> top_roles fv = Inl (KeyError c)
                 \<and> fig_map fv = Inl (KeyError c))
            \<and> (c = ''work_model'' \<longrightarrow> wm_counts fv = Inl (KeyError c))"
  proof (intro allI impI conjI)
    fix fv
    assume h: "columns fv = columns (normalizer raw) \<and> \<not> df_empty fv"
    then have ne: "\<not> df_empty fv" by simp
    from h m have c: "c \<notin> set (columns fv)" by simp
    { assume "c = ''usd''"
      with c have u: "''usd'' \<notin> set (columns fv)" by simp
      from kpis_missing_usd [OF u ne] show "compute_kpis fv = Inl (KeyError c)"
        by (simp add: \<open>c = ''usd''\<close>)
      from top_roles_missing_usd [OF u ne] show "\<exists>e. top_roles fv = Inl e" .
      { assume "\<exists>rs. getcol fv ''role'' = Inr rs \<and> Str ''Data Scientist'' \<notin> set rs"
        then obtain rs where r: "getcol fv ''role'' = Inr rs"
          and d: "Str ''Data Scientist'' \<notin> set rs" by (elim exE conjE)
        from fig_map_no_ds [OF ne r d]
        show "fig_map fv = Inr (Info ''No Data Scientist records in the current filter.'')" . }
      { assume n: "\<not> (\<exists>rs. getcol fv ''role'' = Inr rs \<and> Str ''Data Scientist'' \<notin> set rs)"
        from fig_map_missing_usd [OF u ne n] show "\<exists>e. fig_map fv = Inl e" . } }
    { assume "c = ''role''"
      with c have r: "''role'' \<notin> set (columns fv)" by simp
      from kpis_missing_role [OF r ne] show "\<exists>e. compute_kpis fv = Inl e" .
      from top_roles_missing_role [OF r ne] show "top_roles fv = Inl (KeyError c)"
        by (simp add: \<open>c = ''role''\<close>)
      from fig_map_missing_role [OF r ne] show "fig_map fv = Inl (KeyError c)"
        by (simp add: \<open>c = ''role''\<close>) }
    { assume "c = ''work_model''"
      with c have w: "''work_model'' \<notin> set (columns fv)" by simp
      from wm_counts_missing [OF w ne] show "wm_counts fv = Inl (KeyError c)"
        by (simp add: \<open>c = ''work_model''\<close>) }
  qed
  have p: "c \<in> {''usd'', ''role'', ''work_model''} \<longrightarrow>
            (\<forall>pick page. app raw pick = Inr page \<longrightarrow> df_empty (detail page))"
    by (intro impI allI) (rule app_missing_metric_column [OF m]; assumption)
  have e: "\<forall>fv. df_empty fv \<longrightarrow>
              compute_kpis fv =
                Inr \<lparr>avg_salary = Some 0, max_salary = Some 0, total_records = 0,
                     most_common_role = Str ''''\<rparr>
            \<and> top_roles fv = Inr (Warning ''No data available for roles.'')
            \<and> wm_counts fv = Inr (Warning ''No data available for work model.'')
            \<and> fig_map fv = Inr (Warning ''No data available for countries.'')"
    by (intro allI impI) (rule empty_view_fallbacks)
  show ?thesis
    by (intro conjI g a [THEN conjunct1] a [THEN conjunct2, THEN conjunct1]
          a [THEN conjunct2, THEN conjunct2, THEN conjunct1]
          a [THEN conjunct2, THEN conjunct2, THEN conjunct2] f v p e)
qed

text \<open>
  Claim C7 says that a computation fails whenever the source column is missing. The table
  \<open>ex_table\<close> has no \<open>ano\<close> column but a \<open>year\<close> column, and the list of years is
  computed. The CSV \<open>ex_raw_filters_only\<close> has no salary and no job title, under any
  label; when the user deselects every year the script completes, with the fallback
  metrics and a warning in every chart region.
\<close>

theorem missing_source_column_without_failure:
  "''ano'' \<notin> set (columns ex_table)
   \<and> years_available (normalizer ex_table) = Inr [Num 2023, Num 2024]
   \<and> ''cargo'' \<notin> set (columns ex_raw_filters_only)
   \<and> ''role'' \<notin> set (columns ex_raw_filters_only)
   \<and> ''usd'' \<notin> set (columns ex_raw_filters_only)
   \<and> app ex_raw_filters_only no_year =
       Inr \<lparr>metrics = \<lparr>avg_salary = Some 0, max_salary = Some 0, total_records = 0,
                       most_common_role = Str ''''\<rparr>,
            roles_region = Warning ''No data available for roles.'',
            work_model_region = Warning ''No data available for work model.'',
            countries_region = Warning ''No data available for countries.'',
            detail = \<lparr>columns = [''year'', ''seniority'', ''contract_type'', ''company_size''],
                      rows = []\<rparr>\<rparr>"
  by code_simp

text \<open>
  Without the job title: the access, the chart of roles and the geographic chart raise.
  Without the salary, the one record an analyst: the metrics raise, and the geographic
  chart shows the informational message.
\<close>

theorem missing_column_raises_witness:
  "getcol (normalizer ex_raw_no_role) ''role'' = Inl (KeyError ''role'')
   \<and> top_roles (normalizer ex_raw_no_role) = Inl (KeyError ''role'')
   \<and> fig_map (normalizer ex_raw_no_role) = Inl (KeyError ''role'')
   \<and> compute_kpis (normalizer ex_raw_no_usd) = Inl (KeyError ''usd'')
   \<and> fig_map (normalizer ex_raw_no_usd) =
       Inr (Info ''No Data Scientist records in the current filter.'')"
proof -
  have h1: "''role'' \<notin> set (columns ex_raw_no_role)"
    by (simp add: ex_raw_no_role_def)
  have h2: "\<forall>s. (s, ''role'') \<in> set COL_MAP \<longrightarrow> s \<notin> set (columns ex_raw_no_role)"
    by (simp add: COL_MAP_def ex_raw_no_role_def)
  have n: "\<not> df_empty (normalizer ex_raw_no_role)"
    by (simp add: df_empty_def rows_normalizer columns_normalizer ex_raw_no_role_def)
  note t = missing_column_raises [OF h1 h2]
  have g: "getcol (normalizer ex_raw_no_role) ''role'' = Inl (KeyError ''role'')"
    using t by (rule conjunct1)
  note v = t [THEN conjunct2, THEN conjunct2, THEN conjunct2, THEN conjunct2,
              THEN conjunct2, THEN conjunct2, THEN conjunct1]
  have x: "columns (normalizer ex_raw_no_role) = columns (normalizer ex_raw_no_role)
           \<and> \<not> df_empty (normalizer ex_raw_no_role)"
    using n by simp
  from v [THEN spec, THEN mp, OF x]
  have r: "top_roles (normalizer ex_raw_no_role) = Inl (KeyError ''role'')
        \<and> fig_map (normalizer ex_raw_no_role) = Inl (KeyError ''role'')"
    by simp
  have k1: "''usd'' \<notin> set (columns ex_raw_no_usd)"
    by (simp add: ex_raw_no_usd_def)
  have k2: "\<forall>s. (s, ''usd'') \<in> set COL_MAP \<longrightarrow> s \<notin> set (columns ex_raw_no_usd)"
    by (simp add: COL_MAP_def ex_raw_no_usd_def)
  have nu: "\<not> df_empty (normalizer ex_raw_no_usd)"
    by (simp add: df_empty_def rows_normalizer columns_normalizer ex_raw_no_usd_def)
  note tu = missing_column_raises [OF k1 k2]
  note vu = tu [THEN conjunct2, THEN conjunct2, THEN conjunct2, THEN conjunct2,
                THEN conjunct2, THEN conjunct2, THEN conjunct1]
  have xu: "columns (normalizer ex_raw_no_usd) = columns (normalizer ex_raw_no_usd)
           \<and> \<not> df_empty (normalizer ex_raw_no_usd)"
    using nu by simp
  note wu = vu [THEN spec, THEN mp, OF xu, THEN conjunct1, THEN mp, OF refl]
  have ku: "compute_kpis (normalizer ex_raw_no_usd) = Inl (KeyError ''usd'')"
    using wu by (rule conjunct1)
  have role: "getcol (normalizer ex_raw_no_usd) ''role'' = Inr [Str ''Analyst'']"
    by code_simp
  have ex: "\<exists>rs. getcol (normalizer ex_raw_no_usd) ''role'' = Inr rs
                 \<and> Str ''Data Scientist'' \<notin> set rs"
    by (rule exI [of _ "[Str ''Analyst'']"]) (simp add: role)
  have fu: "fig_map (normalizer ex_raw_no_usd) =
              Inr (Info ''No Data Scientist records in the current filter.'')"
    using wu [THEN conjunct2, THEN conjunct2, THEN conjunct1] ex by (rule mp)
  from g r ku fu show ?thesis by simp
qed

end
